theory Spec2Isabelle
  imports Complex_Main "HOL-Library.Log_Nat"
begin

section \<open>Python's float arithmetic, as far as the rent validator uses it\<close>

text \<open>
  The validator computes \<^verbatim>\<open>avg * 0.6\<close> and \<^verbatim>\<open>avg * 1.5\<close> with \<^verbatim>\<open>avg\<close> an \<^verbatim>\<open>int\<close> and the
  factor a \<^verbatim>\<open>float\<close> literal, and compares the \<^verbatim>\<open>int\<close> \<^verbatim>\<open>user_rent\<close> with the product.
  A finite binary64 value is modelled exactly, as a pair \<open>(m, e)\<close> of integers standing for
  \<open>m * 2 ^ e\<close>. Every operation computes the exact result and rounds it to 53 significant
  bits, to nearest, ties to even, as IEEE 754 (and so CPython) does. The exponent is not
  bounded: overflow to infinity (from \<open>2 ^ 1024\<close>) and subnormal numbers (below
  \<open>2 ^ - 1022\<close>) are outside the model; the products of the validator lie between
  9000 and 37500.
\<close>

type_synonym float = "int \<times> int"

definition float_val :: "float \<Rightarrow> rat" where
  "float_val f = (if 0 \<le> snd f then of_int (fst f) * 2 ^ nat (snd f)
                  else of_int (fst f) / 2 ^ nat (- snd f))"

definition round_half_even :: "int \<Rightarrow> nat \<Rightarrow> int" where
  \<comment> \<open>\<open>x / 2 ^ k\<close> rounded to the nearest integer, a tie going to the even neighbour\<close>
  "round_half_even x k =
     (let q = x div 2 ^ k; r = x mod 2 ^ k
      in if 2 * r < 2 ^ k then q
         else if 2 * r > 2 ^ k then q + 1
         else if even q then q else q + 1)"

definition round53 :: "float \<Rightarrow> float" where
  \<comment> \<open>the nearest value with at most 53 significant bits\<close>
  "round53 f =
     (let k = nat (bitlen \<bar>fst f\<bar> - 53)
      in (round_half_even (fst f) k, snd f + int k))"

definition float_of_int :: "int \<Rightarrow> float" where
  \<comment> \<open>the conversion \<^verbatim>\<open>int\<close> to \<^verbatim>\<open>float\<close> that \<^verbatim>\<open>int * float\<close> applies to its left operand\<close>
  "float_of_int a = round53 (a, 0)"

definition float_mul :: "float \<Rightarrow> float \<Rightarrow> float" where
  "float_mul x y = round53 (fst x * fst y, snd x + snd y)"

definition int_mul_float :: "int \<Rightarrow> float \<Rightarrow> float" where
  \<comment> \<open>\<^verbatim>\<open>a * f\<close> for an \<^verbatim>\<open>int\<close> \<open>a\<close> and a \<^verbatim>\<open>float\<close> \<open>f\<close>\<close>
  "int_mul_float a f = float_mul (float_of_int a) f"

definition int_lt_float :: "int \<Rightarrow> float \<Rightarrow> bool" where
  \<comment> \<open>\<^verbatim>\<open>r < f\<close>: Python compares an \<^verbatim>\<open>int\<close> with a \<^verbatim>\<open>float\<close> by their exact values\<close>
  "int_lt_float r f =
     (if 0 \<le> snd f then r < fst f * 2 ^ nat (snd f) else r * 2 ^ nat (- snd f) < fst f)"

definition int_gt_float :: "int \<Rightarrow> float \<Rightarrow> bool" where
  "int_gt_float r f =
     (if 0 \<le> snd f then r > fst f * 2 ^ nat (snd f) else r * 2 ^ nat (- snd f) > fst f)"

definition float_0_6 :: float where
  \<comment> \<open>the literal \<^verbatim>\<open>0.6\<close>: bit pattern \<^verbatim>\<open>0x3FE3333333333333\<close>\<close>
  "float_0_6 = (5404319552844595, - 53)"

definition float_1_5 :: float where
  \<comment> \<open>the literal \<^verbatim>\<open>1.5\<close>: bit pattern \<^verbatim>\<open>0x3FF8000000000000\<close>\<close>
  "float_1_5 = (3, - 1)"

section \<open>The rent validator (tab 3)\<close>

datatype error = KeyError string

text \<open>
  The dictionary \<^verbatim>\<open>rent_data\<close>, built by a literal on every run of the script and assigned
  nowhere else.
\<close>

definition rent_data :: "string \<rightharpoonup> int" where
  "rent_data = map_of
     [(''Delhi'', 18000),
      (''Mumbai'', 25000),
      (''Bangalore'', 20000),
      (''Hyderabad'', 15000),
      (''Pune'', 16000)]"

definition getitem :: "('k \<rightharpoonup> 'v) \<Rightarrow> 'k \<Rightarrow> ('k \<Rightarrow> error) \<Rightarrow> error + 'v" where
  \<comment> \<open>\<^verbatim>\<open>d[k]\<close> raises \<^verbatim>\<open>KeyError(k)\<close> on a missing key\<close>
  "getitem d k err = (case d k of None \<Rightarrow> Inl (err k) | Some v \<Rightarrow> Inr v)"

text \<open>
  The three banners of the handler: \<^verbatim>\<open>st.error\<close> (Too Low, Possible Scam),
  \<^verbatim>\<open>st.warning\<close> (Unusually High Rent) and \<^verbatim>\<open>st.success\<close> (Rent Looks Reasonable).
\<close>

datatype verdict = TooLow | TooHigh | Reasonable

text \<open>The \<^verbatim>\<open>pandas.DataFrame\<close> handed to the pie chart, by column.\<close>

record data_frame =
  Category :: "string list"
  Amount :: "int list"

text \<open>
  What one click on Validate Rent shows: the banner, the data frame of the chart and the
  average printed below it.
\<close>

record rent_verdict =
  verdict :: verdict
  df :: data_frame
  averageRent :: int

definition classify :: "string \<Rightarrow> int \<Rightarrow> error + rent_verdict" where
  \<comment> \<open>the body of \<^verbatim>\<open>if st.button("Validate Rent")\<close>, from \<^verbatim>\<open>city\<close> and \<^verbatim>\<open>user_rent\<close>\<close>
  "classify city user_rent =
     (case getitem rent_data city KeyError of
        Inl e \<Rightarrow> Inl e
      | Inr avg \<Rightarrow>
          Inr \<lparr> verdict =
                  (if int_lt_float user_rent (int_mul_float avg float_0_6) then TooLow
                   else if int_gt_float user_rent (int_mul_float avg float_1_5) then TooHigh
                   else Reasonable),
                df = \<lparr> Category = [''Your Rent'', ''Market Difference''],
                       Amount = [user_rent, \<bar>avg - user_rent\<bar>] \<rparr>,
                averageRent = avg \<rparr>)"

text \<open>
  The same body with the dictionary it reads as an argument: in the script \<^verbatim>\<open>rent_data\<close>
  is a variable, and the handler looks up whatever that variable holds.
\<close>

definition classify_in :: "(string \<rightharpoonup> int) \<Rightarrow> string \<Rightarrow> int \<Rightarrow> error + rent_verdict" where
  "classify_in d city user_rent =
     (case getitem d city KeyError of
        Inl e \<Rightarrow> Inl e
      | Inr avg \<Rightarrow>
          Inr \<lparr> verdict =
                  (if int_lt_float user_rent (int_mul_float avg float_0_6) then TooLow
                   else if int_gt_float user_rent (int_mul_float avg float_1_5) then TooHigh
                   else Reasonable),
                df = \<lparr> Category = [''Your Rent'', ''Market Difference''],
                       Amount = [user_rent, \<bar>avg - user_rent\<bar>] \<rparr>,
                averageRent = avg \<rparr>)"

definition comparisonBreakdown :: "rent_verdict \<Rightarrow> (string \<times> int) list" where
  \<comment> \<open>the rows of the data frame: a label and its amount\<close>
  "comparisonBreakdown v = zip (Category (df v)) (Amount (df v))"

text \<open>
  The widget \<^verbatim>\<open>st.number_input(min_value=1000, max_value=100000, step=500)\<close> yields an
  \<^verbatim>\<open>int\<close> between its two bounds; the step only drives its plus and minus buttons.
\<close>

definition in_range :: "int \<Rightarrow> bool" where
  "in_range user_rent = (1000 \<le> user_rent \<and> user_rent \<le> 100000)"

text \<open>
  The values the script holds when the handler runs: the widgets of the three tabs and the
  two language-model chains (taken as functions of their filled-in fields). The handler
  reads \<^verbatim>\<open>city\<close> and \<^verbatim>\<open>user_rent\<close>.
\<close>

record script_env =
  desc :: string
  price :: string
  location :: string
  detection_chain :: "string \<times> string \<times> string \<Rightarrow> string"
  user_q :: string
  expert_chain :: "string \<Rightarrow> string"
  city :: string
  user_rent :: int

definition validate_rent :: "script_env \<Rightarrow> error + rent_verdict" where
  "validate_rent env = classify (city env) (user_rent env)"

subsection \<open>The handler as a step of the script\<close>

text \<open>
  The effects of the script, made explicit. A call of \<^verbatim>\<open>detection_chain.run\<close> or
  \<^verbatim>\<open>expert_chain.run\<close> sends a request to the language model; \<^verbatim>\<open>st.error\<close>,
  \<^verbatim>\<open>st.warning\<close> and \<^verbatim>\<open>st.success\<close> put a banner on the page, \<^verbatim>\<open>st.plotly_chart\<close> the
  pie chart of a data frame, and the last \<^verbatim>\<open>st.markdown\<close> of tab 3 the line with the city
  and its average.
\<close>

datatype request = Detection_run string string string | Expert_run string

datatype ui_element = St_banner verdict | St_plotly_chart data_frame | St_markdown string int

text \<open>
  The state of a run: the values of \<open>script_env\<close>, the variable \<^verbatim>\<open>rent_data\<close>, the requests
  sent to the language model so far and the elements put on the page so far.
\<close>

record script_state = script_env +
  rent_data_var :: "string \<rightharpoonup> int"
  requests :: "request list"
  rendered :: "ui_element list"

definition on_validate :: "script_state \<Rightarrow> (error + unit) \<times> script_state" where
  \<comment> \<open>lines 157 to 174: the lookup raises before anything is shown; otherwise the banner,
      the chart and the average are shown, in this order\<close>
  "on_validate s =
     (case classify_in (rent_data_var s) (city s) (user_rent s) of
        Inl e \<Rightarrow> (Inl e, s)
      | Inr v \<Rightarrow>
          (Inr (),
           s\<lparr> rendered := rendered s @
                 [St_banner (verdict v),
                  St_plotly_chart (df v),
                  St_markdown (city s) (averageRent v)] \<rparr>))"

definition tab3 :: "script_state \<Rightarrow> (error + unit) \<times> script_state" where
  \<comment> \<open>lines 146 to 174 in a run where Validate Rent was clicked: the assignment of the
      dictionary literal to \<^verbatim>\<open>rent_data\<close>, then the handler\<close>
  "tab3 s = on_validate (s\<lparr> rent_data_var := rent_data \<rparr>)"

definition shown :: "script_state \<Rightarrow> ui_element list" where
  \<comment> \<open>what a run of tab 3 adds to the page\<close>
  "shown s = drop (length (rendered s)) (rendered (snd (tab3 s)))"

text \<open>
  Two states that agree on the city and the rent and on nothing else: the first in the
  middle of a session, the second before the script has assigned or shown anything.
\<close>

definition state_a :: script_state where
  "state_a =
     \<lparr> desc = ''2BHK near metro'', price = ''9000'', location = ''Pune'',
       detection_chain = (\<lambda>_. ''Scam Probability: 80%''), user_q = ''Is this a scam?'',
       expert_chain = (\<lambda>_. ''yes''), city = ''Pune'', user_rent = 16000,
       rent_data_var = rent_data,
       requests = [Detection_run ''2BHK near metro'' ''9000'' ''Pune''],
       rendered = [St_banner TooLow] \<rparr>"

definition state_b :: script_state where
  "state_b =
     \<lparr> desc = [], price = [], location = [],
       detection_chain = (\<lambda>_. []), user_q = [],
       expert_chain = (\<lambda>_. []), city = ''Pune'', user_rent = 16000,
       rent_data_var = Map.empty,
       requests = [],
       rendered = [] \<rparr>"

section \<open>The table and the thresholds\<close>

text \<open>The five entries of \<^verbatim>\<open>rent_data\<close>, and no others.\<close>

lemma rent_data_Some:
  "rent_data c = Some avg \<Longrightarrow>
     (c = ''Delhi'' \<and> avg = 18000) \<or> (c = ''Mumbai'' \<and> avg = 25000) \<or>
     (c = ''Bangalore'' \<and> avg = 20000) \<or> (c = ''Hyderabad'' \<and> avg = 15000) \<or>
     (c = ''Pune'' \<and> avg = 16000)"
  by (simp add: rent_data_def split: if_splits)

lemma rent_data_values:
  "rent_data ''Delhi'' = Some 18000"
  "rent_data ''Mumbai'' = Some 25000"
  "rent_data ''Bangalore'' = Some 20000"
  "rent_data ''Hyderabad'' = Some 15000"
  "rent_data ''Pune'' = Some 16000"
  by (simp_all add: rent_data_def)

lemma dom_rent_data:
  "dom rent_data = {''Delhi'', ''Mumbai'', ''Bangalore'', ''Hyderabad'', ''Pune''}"
  by (auto simp: rent_data_def dom_def split: if_splits)

text \<open>The two comparisons decide the order of the exact values.\<close>

lemma int_lt_float_iff: "int_lt_float r f \<longleftrightarrow> rat_of_int r < float_val f"
proof (cases "0 \<le> snd f")
  case True
  have "(r < fst f * 2 ^ nat (snd f))
      = (rat_of_int r < rat_of_int (fst f * 2 ^ nat (snd f)))"
    by (simp only: of_int_less_iff)
  then show ?thesis
    using True by (simp add: int_lt_float_def float_val_def)
next
  case False
  have "(r * 2 ^ nat (- snd f) < fst f)
      = (rat_of_int (r * 2 ^ nat (- snd f)) < rat_of_int (fst f))"
    by (simp only: of_int_less_iff)
  then show ?thesis
    using False by (simp add: int_lt_float_def float_val_def pos_less_divide_eq)
qed

lemma int_gt_float_iff: "int_gt_float r f \<longleftrightarrow> float_val f < rat_of_int r"
proof (cases "0 \<le> snd f")
  case True
  have "(fst f * 2 ^ nat (snd f) < r)
      = (rat_of_int (fst f * 2 ^ nat (snd f)) < rat_of_int r)"
    by (simp only: of_int_less_iff)
  then show ?thesis
    using True by (simp add: int_gt_float_def float_val_def)
next
  case False
  have "(fst f < r * 2 ^ nat (- snd f))
      = (rat_of_int (fst f) < rat_of_int (r * 2 ^ nat (- snd f)))"
    by (simp only: of_int_less_iff)
  then show ?thesis
    using False by (simp add: int_gt_float_def float_val_def pos_divide_less_eq)
qed

text \<open>
  The ten products of the handler, rounded as the hardware rounds them. Each is the exact
  product: \<open>avg * 0.6\<close> is a whole number for the five averages and the rounding error of
  the literal \<^verbatim>\<open>0.6\<close> disappears in the rounding of the product; \<open>1.5\<close> is a binary
  fraction.
\<close>

lemma products_0_6:
  "int_mul_float 18000 float_0_6 = (5937362789990400, - 39)"
  "int_mul_float 25000 float_0_6 = (8246337208320000, - 39)"
  "int_mul_float 20000 float_0_6 = (6597069766656000, - 39)"
  "int_mul_float 15000 float_0_6 = (4947802324992000, - 39)"
  "int_mul_float 16000 float_0_6 = (5277655813324800, - 39)"
  by code_simp+

lemma products_1_5:
  "int_mul_float 18000 float_1_5 = (54000, - 1)"
  "int_mul_float 25000 float_1_5 = (75000, - 1)"
  "int_mul_float 20000 float_1_5 = (60000, - 1)"
  "int_mul_float 15000 float_1_5 = (45000, - 1)"
  "int_mul_float 16000 float_1_5 = (48000, - 1)"
  by code_simp+

lemma low_threshold_table:
  assumes "rent_data c = Some avg"
  shows "float_val (int_mul_float avg float_0_6) = rat_of_int avg * (6 / 10)"
  using rent_data_Some [OF assms]
  by (elim disjE conjE) (simp_all add: products_0_6 float_val_def)

lemma high_threshold_table:
  assumes "rent_data c = Some avg"
  shows "float_val (int_mul_float avg float_1_5) = rat_of_int avg * (15 / 10)"
  using rent_data_Some [OF assms]
  by (elim disjE conjE) (simp_all add: products_1_5 float_val_def)

text \<open>
  The literals: \<^verbatim>\<open>0.6\<close> denotes the 53-bit value nearest to \<open>6 / 10\<close>, within half a
  unit in the last place, and \<^verbatim>\<open>1.5\<close> is exact.
\<close>

lemma float_0_6_nearest:
  "\<bar>float_val float_0_6 - 6 / 10\<bar> \<le> 1 / 2 ^ 54"
  by (simp add: float_0_6_def float_val_def)

lemma float_0_6_bits: "bitlen (fst float_0_6) = 53"
  by code_simp

lemma float_1_5_exact: "float_val float_1_5 = 15 / 10"
  by (simp add: float_1_5_def float_val_def)

section \<open>The handler in closed form\<close>

lemma rent_data_bounds: "rent_data c = Some avg \<Longrightarrow> 15000 \<le> avg \<and> avg \<le> 25000"
  by (drule rent_data_Some) auto

lemma classify_configured:
  assumes "rent_data c = Some avg"
  shows "classify c r =
     Inr \<lparr> verdict =
             (if rat_of_int r < rat_of_int avg * (6 / 10) then TooLow
              else if rat_of_int avg * (15 / 10) < rat_of_int r then TooHigh
              else Reasonable),
           df = \<lparr> Category = [''Your Rent'', ''Market Difference''],
                  Amount = [r, \<bar>avg - r\<bar>] \<rparr>,
           averageRent = avg \<rparr>"
  using assms
  by (simp add: classify_def getitem_def int_lt_float_iff int_gt_float_iff
      low_threshold_table [OF assms] high_threshold_table [OF assms])

lemma classify_unknown: "rent_data c = None \<Longrightarrow> classify c r = Inl (KeyError c)"
  by (simp add: classify_def getitem_def)

section \<open>The handler as a step of the script, in closed form\<close>

text \<open>
  With the dictionary of the script the parametric body is \<open>classify\<close>. The handler writes
  the page and nothing else, and a run of tab 3 is \<open>classify\<close> at the city and the rent of
  the state, its three results put on the page.
\<close>

lemma classify_in_rent_data: "classify_in rent_data c r = classify c r"
  by (simp add: classify_in_def classify_def)

lemma on_validate_table: "rent_data_var (snd (on_validate s)) = rent_data_var s"
  by (simp add: on_validate_def split: sum.split)

lemma on_validate_frame:
  "snd (on_validate s) = s\<lparr> rendered := rendered (snd (on_validate s)) \<rparr>"
  by (simp add: on_validate_def split: sum.split)

lemma clicks_table:
  "rent_data_var (((\<lambda>s. snd (on_validate s)) ^^ n) s) = rent_data_var s"
  by (induction n) (simp_all add: on_validate_table)

lemma on_validate_average:
  assumes "rent_data_var s (city s) = Some avg"
  shows "\<exists>b d. rendered (snd (on_validate s)) =
           rendered s @ [St_banner b, St_plotly_chart d, St_markdown (city s) avg]"
  using assms by (simp add: on_validate_def classify_in_def getitem_def)

lemma tab3_closed_form:
  "tab3 s =
     (case classify (city s) (user_rent s) of
        Inl e \<Rightarrow> (Inl e, s\<lparr> rent_data_var := rent_data \<rparr>)
      | Inr v \<Rightarrow>
          (Inr (),
           s\<lparr> rent_data_var := rent_data,
              rendered := rendered s @
                [St_banner (verdict v), St_plotly_chart (df v),
                 St_markdown (city s) (averageRent v)] \<rparr>))"
  by (simp add: tab3_def on_validate_def classify_in_rent_data split: sum.split)

lemma shown_closed_form:
  "shown s =
     (case classify (city s) (user_rent s) of
        Inl e \<Rightarrow> []
      | Inr v \<Rightarrow> [St_banner (verdict v), St_plotly_chart (df v),
                 St_markdown (city s) (averageRent v)])"
  by (simp add: shown_def tab3_closed_form split: sum.split)

lemma tab3_table: "rent_data_var (snd (tab3 s)) = rent_data"
  by (simp add: tab3_def on_validate_table)

section \<open>The claims\<close>

text \<open>
  Claim C1. For every configured city \<open>c\<close> and every rent \<open>r\<close> with
  \<open>avg(c) * 0.6 \<le> r \<le> avg(c) * 1.5\<close> the verdict is Reasonable, and so it is at the two
  boundary values \<open>r = avg(c) * 0.6\<close> and \<open>r = avg(c) * 1.5\<close>, the comparisons being
  strict. The thresholds are the exact products; by \<open>low_threshold_table\<close> and
  \<open>high_threshold_table\<close> they are also the floats the handler computes. The rent is any
  integer, in range or not.
\<close>

theorem reasonable_between_thresholds:
  assumes "rent_data c = Some avg"
  shows "(rat_of_int avg * (6 / 10) \<le> rat_of_int r \<and> rat_of_int r \<le> rat_of_int avg * (15 / 10)
            \<longrightarrow> (\<exists>v. classify c r = Inr v \<and> verdict v = Reasonable))
       \<and> (rat_of_int r = rat_of_int avg * (6 / 10)
            \<longrightarrow> (\<exists>v. classify c r = Inr v \<and> verdict v = Reasonable))
       \<and> (rat_of_int r = rat_of_int avg * (15 / 10)
            \<longrightarrow> (\<exists>v. classify c r = Inr v \<and> verdict v = Reasonable))"
proof -
  have pos: "0 < rat_of_int avg"
    using rent_data_bounds [OF assms] by simp
  show ?thesis
    using pos by (simp add: classify_configured [OF assms])
qed

theorem reasonable_between_thresholds_witness:
  "rent_data ''Delhi'' = Some 18000
   \<and> rat_of_int 18000 * (6 / 10) \<le> rat_of_int 18000
   \<and> rat_of_int 18000 \<le> rat_of_int 18000 * (15 / 10)
   \<and> rat_of_int 10800 = rat_of_int 18000 * (6 / 10)
   \<and> rat_of_int 27000 = rat_of_int 18000 * (15 / 10)
   \<and> in_range 18000 \<and> in_range 10800 \<and> in_range 27000
   \<and> (\<exists>v. classify ''Delhi'' 18000 = Inr v \<and> verdict v = Reasonable)
   \<and> (\<exists>v. classify ''Delhi'' 10800 = Inr v \<and> verdict v = Reasonable)
   \<and> (\<exists>v. classify ''Delhi'' 27000 = Inr v \<and> verdict v = Reasonable)"
proof -
  have h: "rent_data ''Delhi'' = Some 18000"
    by (rule rent_data_values)
  have mid: "rat_of_int 18000 * (6 / 10) \<le> rat_of_int 18000
      \<and> rat_of_int 18000 \<le> rat_of_int 18000 * (15 / 10)"
    by simp
  have lo: "rat_of_int 10800 = rat_of_int 18000 * (6 / 10)"
    by simp
  have hi: "rat_of_int 27000 = rat_of_int 18000 * (15 / 10)"
    by simp
  from reasonable_between_thresholds [OF h, of 18000] mid
  have a: "\<exists>v. classify ''Delhi'' 18000 = Inr v \<and> verdict v = Reasonable"
    by blast
  from reasonable_between_thresholds [OF h, of 10800] lo
  have b: "\<exists>v. classify ''Delhi'' 10800 = Inr v \<and> verdict v = Reasonable"
    by blast
  from reasonable_between_thresholds [OF h, of 27000] hi
  have c: "\<exists>v. classify ''Delhi'' 27000 = Inr v \<and> verdict v = Reasonable"
    by blast
  show ?thesis
    using h mid lo hi a b c by (simp add: in_range_def)
qed

text \<open>
  Claim C2. For every configured city \<open>c\<close> and every rent \<open>r\<close> with \<open>r < avg(c) * 0.6\<close>
  the verdict is TooLow.
\<close>

theorem too_low_below_threshold:
  assumes "rent_data c = Some avg"
    and "rat_of_int r < rat_of_int avg * (6 / 10)"
  shows "\<exists>v. classify c r = Inr v \<and> verdict v = TooLow"
  using assms(2) by (simp add: classify_configured [OF assms(1)])

theorem too_low_below_threshold_witness:
  "rent_data ''Delhi'' = Some 18000
   \<and> rat_of_int 10799 < rat_of_int 18000 * (6 / 10)
   \<and> (\<exists>v. classify ''Delhi'' 10799 = Inr v \<and> verdict v = TooLow)"
proof -
  have h: "rent_data ''Delhi'' = Some 18000"
    by (rule rent_data_values)
  have lt: "rat_of_int 10799 < rat_of_int 18000 * (6 / 10)"
    by simp
  show ?thesis
    using h lt too_low_below_threshold [OF h lt] by blast
qed

text \<open>
  Claim C3. For every configured city \<open>c\<close> and every rent \<open>r\<close> with \<open>r > avg(c) * 1.5\<close>
  the verdict is TooHigh. The averages are positive, so such a rent is not below the lower
  threshold and the first branch does not take it.
\<close>

theorem too_high_above_threshold:
  assumes "rent_data c = Some avg"
    and "rat_of_int avg * (15 / 10) < rat_of_int r"
  shows "\<exists>v. classify c r = Inr v \<and> verdict v = TooHigh"
proof -
  have pos: "0 < rat_of_int avg"
    using rent_data_bounds [OF assms(1)] by simp
  then have "rat_of_int avg * (6 / 10) \<le> rat_of_int avg * (15 / 10)"
    by simp
  with assms(2) have "\<not> rat_of_int r < rat_of_int avg * (6 / 10)"
    by linarith
  with assms(2) show ?thesis
    by (simp add: classify_configured [OF assms(1)])
qed

theorem too_high_above_threshold_witness:
  "rent_data ''Mumbai'' = Some 25000
   \<and> rat_of_int 25000 * (15 / 10) < rat_of_int 37501
   \<and> (\<exists>v. classify ''Mumbai'' 37501 = Inr v \<and> verdict v = TooHigh)"
proof -
  have h: "rent_data ''Mumbai'' = Some 25000"
    by (rule rent_data_values)
  have gt: "rat_of_int 25000 * (15 / 10) < rat_of_int 37501"
    by simp
  show ?thesis
    using h gt too_high_above_threshold [OF h gt] by blast
qed

text \<open>
  Claim C4. For a configured city \<open>c\<close> and a rent \<open>r\<close> in the range of the widget, the
  breakdown is the two rows Your Rent with \<open>r\<close> and Market Difference with
  \<open>\<bar>avg(c) - r\<bar>\<close>, and neither amount is negative.
\<close>

theorem breakdown_amounts:
  assumes "rent_data c = Some avg" and "in_range r"
  shows "\<exists>v. classify c r = Inr v
           \<and> comparisonBreakdown v = [(''Your Rent'', r), (''Market Difference'', \<bar>avg - r\<bar>)]
           \<and> 0 \<le> r \<and> 0 \<le> \<bar>avg - r\<bar>
           \<and> list_all (\<lambda>a. 0 \<le> a) (Amount (df v))"
  using assms(2)
  by (simp add: classify_configured [OF assms(1)] comparisonBreakdown_def in_range_def)

theorem breakdown_amounts_witness:
  "rent_data ''Mumbai'' = Some 25000 \<and> in_range 40000
   \<and> (\<exists>v. classify ''Mumbai'' 40000 = Inr v
         \<and> comparisonBreakdown v = [(''Your Rent'', 40000), (''Market Difference'', 15000)]
         \<and> list_all (\<lambda>a. 0 \<le> a) (Amount (df v)))"
proof -
  have h: "rent_data ''Mumbai'' = Some 25000"
    by (rule rent_data_values)
  have r: "in_range 40000"
    by (simp add: in_range_def)
  show ?thesis
    using h r breakdown_amounts [OF h r] by auto
qed

text \<open>
  Claim C5. For a city that is not a key of the table the lookup raises: the handler ends
  with the error (Python's \<^verbatim>\<open>KeyError\<close>, carrying the city), yields no verdict, and the
  script that runs the handler ends with the same error, no default taking its place.
\<close>

theorem unknown_city_fails:
  assumes "rent_data c = None"
  shows "classify c r = Inl (KeyError c)
       \<and> (\<nexists>v. classify c r = Inr v)
       \<and> validate_rent (env\<lparr>city := c, user_rent := r\<rparr>) = Inl (KeyError c)"
  by (simp add: classify_unknown [OF assms] validate_rent_def)

theorem unknown_city_fails_witness:
  "rent_data ''Atlantis'' = None
   \<and> classify ''Atlantis'' 5000 = Inl (KeyError ''Atlantis'')
   \<and> (\<nexists>v. classify ''Atlantis'' 5000 = Inr v)"
proof -
  have h: "rent_data ''Atlantis'' = None"
    by (simp add: rent_data_def)
  show ?thesis
    using h unknown_city_fails [OF h, of 5000] by simp
qed

text \<open>
  Claim C6. For a configured city and a rent in range the handler returns a verdict, and
  exactly one of the three: each verdict is given on its own condition, and the three
  conditions exclude one another.
\<close>

theorem exactly_one_verdict:
  assumes "rent_data c = Some avg" and "in_range r"
  shows "\<exists>v. classify c r = Inr v
           \<and> (\<exists>!k. verdict v = k)
           \<and> (verdict v = TooLow \<or> verdict v = TooHigh \<or> verdict v = Reasonable)
           \<and> (verdict v = TooLow \<longleftrightarrow> rat_of_int r < rat_of_int avg * (6 / 10))
           \<and> (verdict v = TooHigh \<longleftrightarrow> rat_of_int avg * (15 / 10) < rat_of_int r)
           \<and> (verdict v = Reasonable \<longleftrightarrow>
                rat_of_int avg * (6 / 10) \<le> rat_of_int r
                \<and> rat_of_int r \<le> rat_of_int avg * (15 / 10))"
proof -
  have pos: "0 < rat_of_int avg"
    using rent_data_bounds [OF assms(1)] by simp
  then have le: "rat_of_int avg * (6 / 10) \<le> rat_of_int avg * (15 / 10)"
    by simp
  show ?thesis
    using le by (auto simp add: classify_configured [OF assms(1)])
qed

theorem exactly_one_verdict_witness:
  "rent_data ''Hyderabad'' = Some 15000 \<and> in_range 9000
   \<and> (\<exists>v. classify ''Hyderabad'' 9000 = Inr v \<and> verdict v = Reasonable
         \<and> verdict v \<noteq> TooLow \<and> verdict v \<noteq> TooHigh)"
proof -
  have h: "rent_data ''Hyderabad'' = Some 15000"
    by (rule rent_data_values)
  have r: "in_range 9000"
    by (simp add: in_range_def)
  show ?thesis
    using h r exactly_one_verdict [OF h r] by auto
qed

text \<open>
  Claim C7. The average the handler reports is the entry of the table for the city, both
  as the value of \<open>classify\<close> and as the line the handler puts on the page from the
  variable \<^verbatim>\<open>rent_data\<close>. The table of the script maps Delhi to 18000, Mumbai to 25000,
  Bangalore to 20000, Hyderabad to 15000 and Pune to 16000, with no other key. It is never
  mutated: after a run of tab 3 the variable holds this table, the handler leaves the
  variable as it found it, and so does any number of clicks.
\<close>

theorem average_is_table_lookup:
  "(rent_data c = Some avg \<longrightarrow> (\<exists>v. classify c r = Inr v \<and> averageRent v = avg))
   \<and> (rent_data_var s (city s) = Some avg' \<longrightarrow>
        (\<exists>b d. rendered (snd (on_validate s)) =
           rendered s @ [St_banner b, St_plotly_chart d, St_markdown (city s) avg']))
   \<and> rent_data ''Delhi'' = Some 18000
   \<and> rent_data ''Mumbai'' = Some 25000
   \<and> rent_data ''Bangalore'' = Some 20000
   \<and> rent_data ''Hyderabad'' = Some 15000
   \<and> rent_data ''Pune'' = Some 16000
   \<and> dom rent_data = {''Delhi'', ''Mumbai'', ''Bangalore'', ''Hyderabad'', ''Pune''}
   \<and> rent_data_var (snd (tab3 s)) = rent_data
   \<and> rent_data_var (snd (on_validate s)) = rent_data_var s
   \<and> rent_data_var (((\<lambda>s. snd (on_validate s)) ^^ n) s) = rent_data_var s"
proof -
  have a: "rent_data c = Some avg \<longrightarrow> (\<exists>v. classify c r = Inr v \<and> averageRent v = avg)"
    by (simp add: classify_configured)
  have b: "rent_data_var s (city s) = Some avg' \<longrightarrow>
        (\<exists>b d. rendered (snd (on_validate s)) =
           rendered s @ [St_banner b, St_plotly_chart d, St_markdown (city s) avg'])"
    using on_validate_average by blast
  show ?thesis
    using a b
    by (simp only: rent_data_values dom_rent_data tab3_table on_validate_table clicks_table
        simp_thms)
qed

theorem average_is_table_lookup_witness:
  "rent_data ''Bangalore'' = Some 20000
   \<and> (\<exists>v. classify ''Bangalore'' 5000 = Inr v \<and> averageRent v = 20000)
   \<and> rent_data_var state_a (city state_a) = Some 16000
   \<and> (\<exists>b d. rendered (snd (on_validate state_a)) =
         rendered state_a @ [St_banner b, St_plotly_chart d, St_markdown ''Pune'' 16000])
   \<and> rent_data_var (snd (tab3 state_b)) = rent_data
   \<and> rent_data_var (snd (on_validate state_a)) = rent_data
   \<and> rent_data_var (((\<lambda>s. snd (on_validate s)) ^^ 3) state_a) = rent_data"
proof -
  have h: "rent_data_var state_a (city state_a) = Some 16000"
    by (simp add: state_a_def rent_data_values)
  have c: "city state_a = ''Pune''" and t: "rent_data_var state_a = rent_data"
    by (simp_all add: state_a_def)
  from average_is_table_lookup [of "''Bangalore''" 20000 5000 state_a 16000 3] h
  show ?thesis
    unfolding c t
    using average_is_table_lookup [of "''Bangalore''" 20000 5000 state_b 16000 3]
    by blast
qed

text \<open>
  Claim C8. Under the table of the script, Delhi at 10000 is TooLow, Delhi at 10800 (the
  lower boundary) is Reasonable, and Pune at 16000 is Reasonable with the breakdown
  Your Rent 16000, Market Difference 0.
\<close>

theorem concrete_scenarios:
  "classify ''Delhi'' 10000 =
     Inr \<lparr> verdict = TooLow,
           df = \<lparr> Category = [''Your Rent'', ''Market Difference''], Amount = [10000, 8000] \<rparr>,
           averageRent = 18000 \<rparr>
   \<and> classify ''Delhi'' 10800 =
     Inr \<lparr> verdict = Reasonable,
           df = \<lparr> Category = [''Your Rent'', ''Market Difference''], Amount = [10800, 7200] \<rparr>,
           averageRent = 18000 \<rparr>
   \<and> classify ''Pune'' 16000 =
     Inr \<lparr> verdict = Reasonable,
           df = \<lparr> Category = [''Your Rent'', ''Market Difference''], Amount = [16000, 0] \<rparr>,
           averageRent = 16000 \<rparr>
   \<and> (\<exists>v. classify ''Pune'' 16000 = Inr v
         \<and> comparisonBreakdown v = [(''Your Rent'', 16000), (''Market Difference'', 0)])"
  by (simp add: classify_configured [OF rent_data_values(1)]
      classify_configured [OF rent_data_values(5)] comparisonBreakdown_def)

text \<open>
  Claim C9. The result of the handler is a function of the city and the rent alone. Two
  runs of tab 3 from states that agree on these two, and differ in anything else (the
  fields of the other tabs, the answers of the two language-model chains, the requests
  already sent, the page so far, the old value of \<^verbatim>\<open>rent_data\<close>), end alike, in the same
  error or not, and show the same banner, the same chart and the same average: those that
  \<open>classify\<close> computes from the city and the rent. The run has no other effect: it sends no
  request to the language model and, the assignment of the table and the three elements
  it shows apart, leaves the state as it was; the handler itself changes the page only.
\<close>

theorem validate_rent_noninterference:
  assumes "city s1 = city s2" and "user_rent s1 = user_rent s2"
  shows "fst (tab3 s1) = fst (tab3 s2)
       \<and> shown s1 = shown s2
       \<and> shown s1 =
           (case classify (city s1) (user_rent s1) of
              Inl e \<Rightarrow> []
            | Inr v \<Rightarrow> [St_banner (verdict v), St_plotly_chart (df v),
                       St_markdown (city s1) (averageRent v)])
       \<and> snd (tab3 s1) = s1\<lparr> rent_data_var := rent_data, rendered := rendered s1 @ shown s1 \<rparr>
       \<and> snd (on_validate s1) = s1\<lparr> rendered := rendered (snd (on_validate s1)) \<rparr>
       \<and> requests (snd (tab3 s1)) = requests s1"
proof -
  have out: "fst (tab3 s1) = fst (tab3 s2)"
    using assms by (simp add: tab3_closed_form split: sum.split)
  have sh: "shown s1 = shown s2"
    using assms by (simp add: shown_closed_form split: sum.split)
  have fr: "snd (tab3 s1) = s1\<lparr> rent_data_var := rent_data, rendered := rendered s1 @ shown s1 \<rparr>"
    by (simp add: shown_closed_form tab3_closed_form split: sum.split)
  have rq: "requests (snd (tab3 s1)) = requests s1"
    by (simp add: tab3_closed_form split: sum.split)
  show ?thesis
    using out sh fr rq shown_closed_form [of s1] on_validate_frame [of s1] by simp
qed

theorem validate_rent_noninterference_witness:
  "city state_a = city state_b \<and> user_rent state_a = user_rent state_b
   \<and> desc state_a \<noteq> desc state_b
   \<and> requests state_a \<noteq> requests state_b
   \<and> rendered state_a \<noteq> rendered state_b
   \<and> fst (tab3 state_a) = fst (tab3 state_b)
   \<and> shown state_a = shown state_b
   \<and> requests (snd (tab3 state_a)) = requests state_a"
proof -
  have c: "city state_a = city state_b" and r: "user_rent state_a = user_rent state_b"
    by (simp_all add: state_a_def state_b_def)
  have d: "desc state_a \<noteq> desc state_b \<and> requests state_a \<noteq> requests state_b
      \<and> rendered state_a \<noteq> rendered state_b"
    by (simp add: state_a_def state_b_def)
  show ?thesis
    using c r d validate_rent_noninterference [OF c r] by simp
qed

text \<open>
  Claim C10. The averages of the table lie between 15000 and 25000; the least rent of the
  widget, 1000, is TooLow for every configured city and the greatest, 100000, is TooHigh;
  a rent equal to the average is in range and Reasonable. So each city reaches all three
  verdicts within the range of the widget.
\<close>

theorem all_verdicts_reachable:
  assumes "rent_data c = Some avg"
  shows "15000 \<le> avg \<and> avg \<le> 25000
       \<and> in_range 1000 \<and> in_range 100000
       \<and> (\<exists>v. classify c 1000 = Inr v \<and> verdict v = TooLow)
       \<and> (\<exists>v. classify c 100000 = Inr v \<and> verdict v = TooHigh)
       \<and> (\<exists>r v. in_range r \<and> classify c r = Inr v \<and> verdict v = Reasonable)"
proof -
  have b: "15000 \<le> avg \<and> avg \<le> 25000"
    by (rule rent_data_bounds [OF assms])
  have lo: "\<exists>v. classify c 1000 = Inr v \<and> verdict v = TooLow"
    using b by (simp add: classify_configured [OF assms])
  have hi: "\<exists>v. classify c 100000 = Inr v \<and> verdict v = TooHigh"
    using b by (simp add: classify_configured [OF assms])
  have "in_range avg \<and> (\<exists>v. classify c avg = Inr v \<and> verdict v = Reasonable)"
    using b by (simp add: classify_configured [OF assms] in_range_def)
  then have mid: "\<exists>r v. in_range r \<and> classify c r = Inr v \<and> verdict v = Reasonable"
    by blast
  show ?thesis
    using b lo hi mid by (simp add: in_range_def)
qed

theorem all_verdicts_reachable_witness:
  "rent_data ''Mumbai'' = Some 25000
   \<and> (\<exists>v. classify ''Mumbai'' 1000 = Inr v \<and> verdict v = TooLow)
   \<and> (\<exists>v. classify ''Mumbai'' 100000 = Inr v \<and> verdict v = TooHigh)"
proof -
  have h: "rent_data ''Mumbai'' = Some 25000"
    by (rule rent_data_values)
  show ?thesis
    using h all_verdicts_reachable [OF h] by blast
qed

end
